theory Spec2Isabelle
  imports Complex_Main "HOL-Library.Sublist"
begin

section \<open>Repair stages on coordinate sequences\<close>

text \<open>
  \<^verbatim>\<open>removeDuplicates(coordinates)\<close> of \<^verbatim>\<open>airspace-converter.js\<close>.  The turf function
  \<^verbatim>\<open>distance\<close> (kilometers) is a parameter; \<^verbatim>\<open>processed.find(...)\<close> returns the first
  retained value closer than 0.001 km, or \<^verbatim>\<open>undefined\<close> (here \<open>None\<close>).
\<close>

definition dedupCallback :: "('c \<Rightarrow> 'c \<Rightarrow> real) \<Rightarrow> 'c \<Rightarrow> 'c list \<Rightarrow> 'c list" where
  "dedupCallback distance coord processed =
     (case find (\<lambda>value. distance value coord < 0.001) processed of
        None \<Rightarrow> processed @ [coord]
      | Some exists \<Rightarrow> processed)"

definition removeDuplicates :: "('c \<Rightarrow> 'c \<Rightarrow> real) \<Rightarrow> 'c list \<Rightarrow> 'c list" where
  "removeDuplicates distance coordinates = fold (dedupCallback distance) coordinates []"

text \<open>
  \<^verbatim>\<open>removeOverlapPoints(coordinates)\<close>.  The callback of \<^verbatim>\<open>forEach\<close> receives the
  element and its index and reads \<^verbatim>\<open>coordinates[index + 1]\<close>, which is \<^verbatim>\<open>undefined\<close>
  past the end; the state is \<^verbatim>\<open>fixedPoints\<close> and \<^verbatim>\<open>lastBearing\<close> (\<open>None\<close> for
  \<^verbatim>\<open>null\<close>).  The turf function \<^verbatim>\<open>bearing\<close> and the built-in \<^verbatim>\<open>parseInt\<close> applied to
  its floating-point result are parameters.  The second \<^verbatim>\<open>parseInt\<close> of the source is
  applied to a number that is already an integer and leaves it as it is.
\<close>

definition overlapCallback ::
  "(real \<Rightarrow> int) \<Rightarrow> ('c \<Rightarrow> 'c \<Rightarrow> real) \<Rightarrow> 'c list \<Rightarrow> nat \<Rightarrow>
     'c list \<times> int option \<Rightarrow> 'c list \<times> int option" where
  "overlapCallback parseInt calcBearing coordinates index state =
     (let fixedPoints = fst state;
          lastBearing = snd state;
          coord = coordinates ! index
      in if index + 1 < length coordinates then
           (let nextPoint = coordinates ! (index + 1);
                nextBearing0 = parseInt (calcBearing coord nextPoint);
                nextBearing = (if nextBearing0 = 0 then 360 else nextBearing0);
                oppBearing = (if nextBearing > 360 \<and> nextBearing < 180
                              then nextBearing + 180 else nextBearing - 180)
            in if lastBearing = None \<or> Some oppBearing \<noteq> lastBearing
               then (fixedPoints @ [coord], Some nextBearing)
               else (fixedPoints, lastBearing))
         else (fixedPoints @ [coord], lastBearing))"

definition removeOverlapPoints ::
  "(real \<Rightarrow> int) \<Rightarrow> ('c \<Rightarrow> 'c \<Rightarrow> real) \<Rightarrow> 'c list \<Rightarrow> 'c list" where
  "removeOverlapPoints parseInt calcBearing coordinates =
     fst (fold (overlapCallback parseInt calcBearing coordinates)
            [0..<length coordinates] ([], None))"

text \<open>
  The same loop by recursion on the rest of the sequence, used in the proofs:
  \<open>overlapFrom\<close> is what the loop still appends when it stands before the given rest
  with the given \<^verbatim>\<open>lastBearing\<close>.
\<close>

fun overlapFrom ::
  "(real \<Rightarrow> int) \<Rightarrow> ('c \<Rightarrow> 'c \<Rightarrow> real) \<Rightarrow> int option \<Rightarrow> 'c list \<Rightarrow> 'c list" where
  "overlapFrom parseInt calcBearing lastBearing [] = []"
| "overlapFrom parseInt calcBearing lastBearing [coord] = [coord]"
| "overlapFrom parseInt calcBearing lastBearing (coord # nextPoint # rest) =
     (let nextBearing0 = parseInt (calcBearing coord nextPoint);
          nextBearing = (if nextBearing0 = 0 then 360 else nextBearing0);
          oppBearing = (if nextBearing > 360 \<and> nextBearing < 180
                        then nextBearing + 180 else nextBearing - 180)
      in if lastBearing = None \<or> Some oppBearing \<noteq> lastBearing
         then coord # overlapFrom parseInt calcBearing (Some nextBearing) (nextPoint # rest)
         else overlapFrom parseInt calcBearing lastBearing (nextPoint # rest))"

section \<open>Data model of the boundary resolver\<close>

text \<open>
  A position is the pair \<^verbatim>\<open>[lon, lat]\<close> in decimal degrees.  JavaScript numbers are
  modelled as reals: rounding of floating-point arithmetic is not part of the model.
  A GeoJSON Polygon geometry carries its list of rings.
\<close>

type_synonym position = "real \<times> real"

datatype geometry = Polygon "position list list"

text \<open>
  An element of the \<^verbatim>\<open>boundary\<close> array is an object whose first key selects the
  handler.  The value under \<^verbatim>\<open>line\<close> is an array of coordinate strings; the fields of
  an \<^verbatim>\<open>arc\<close> or \<^verbatim>\<open>circle\<close> object may be missing (\<open>None\<close> for \<^verbatim>\<open>null\<close> or
  \<^verbatim>\<open>undefined\<close>).  Any other first key is carried by \<open>Other\<close>.
\<close>

record arcDefinition =
  arc_dir :: "string option"
  arc_radius :: "string option"
  arc_centre :: "string option"
  arc_to :: "string option"

record circleDefinition =
  circle_radius :: "string option"
  circle_centre :: "string option"

datatype boundaryDefinition =
    Line "string list"
  | Arc arcDefinition
  | Circle circleDefinition
  | Other string

text \<open>
  Every \<^verbatim>\<open>throw new Error(...)\<close> of the converter is a \<open>failure\<close>; its message names
  \<^verbatim>\<open>this.ident\<close> and \<^verbatim>\<open>this.seqno\<close>, which \<open>ConverterError\<close> carries.  An error thrown
  inside a library call keeps only its message.
\<close>

datatype failure =
    UnsupportedBoundaryType string
  | InvalidLineBoundary
  | InvalidLineCoordinate string
  | ArcPreviousCoordinateMissing
  | InvalidArcBoundary
  | InvalidArcDirection string
  | InvalidArcRadius string
  | InvalidArcCentre string
  | InvalidArcTo string
  | InvalidCircleBoundary
  | InvalidCircleRadius string
  | InvalidCircleCentre string
  | FailedToTransformCoordinates string
  | FailedToCreateFixedGeometry string

datatype error =
    ConverterError failure string string
  | LibraryError string

text \<open>
  The fields of the \<^verbatim>\<open>AirspaceConverter\<close> instance that the geometry code reads and
  writes: the identifiers used in messages, \<^verbatim>\<open>config.geometryDetail\<close> and the
  accumulator \<^verbatim>\<open>boundaryCoordinates\<close>.
\<close>

record converter =
  ident :: string
  seqno :: string
  geometryDetail :: int
  boundaryCoordinates :: "position list"

text \<open>
  What \<^verbatim>\<open>getSelfIntersections\<close> can return: \<^verbatim>\<open>undefined\<close>, the empty object
  \<^verbatim>\<open>{}\<close> it starts from, or the invalid point reported by jsts.  Only \<^verbatim>\<open>undefined\<close>
  is falsy.
\<close>

datatype selfIntersect = Undefined | EmptyObject | InvalidPoint position

text \<open>
  The functions of the packages the converter requires (coordinate-parser, turf, jsts)
  and the built-ins \<^verbatim>\<open>parseFloat\<close> and \<^verbatim>\<open>parseInt\<close> on floating-point input are not
  part of the repository; they are parameters of the model.  A library call that can
  throw returns its message on the left.  \<open>coordinateParser\<close> stands for
  \<^verbatim>\<open>new Coordinates(s)\<close> followed by \<^verbatim>\<open>[getLongitude(), getLatitude()]\<close>.
  \<open>turf_lineArc\<close> stands for the positions that \<^verbatim>\<open>lineArc\<close> computes and
  \<open>turf_circle\<close> for the ring of the polygon that \<^verbatim>\<open>circle\<close> returns; both take the
  centre, the radius in kilometers and the \<^verbatim>\<open>steps\<close> option.
\<close>

record libraries =
  coordinateParser :: "string \<Rightarrow> position option"
  js_parseFloat :: "string \<Rightarrow> real"
  js_parseInt :: "real \<Rightarrow> int"
  turf_bearing :: "position \<Rightarrow> position \<Rightarrow> real"
  turf_lineArc :: "position \<Rightarrow> real \<Rightarrow> real \<Rightarrow> real \<Rightarrow> int \<Rightarrow> string + position list"
  turf_circle :: "position \<Rightarrow> real \<Rightarrow> int \<Rightarrow> string + position list"
  turf_distance :: "position \<Rightarrow> position \<Rightarrow> real"
  turf_unkinkPolygon :: "geometry \<Rightarrow> string + geometry list"
  turf_area :: "geometry \<Rightarrow> real"
  turf_envelope :: "position list \<Rightarrow> string + geometry"
  jsts_isValid :: "geometry \<Rightarrow> bool"
  jsts_isSimple :: "geometry \<Rightarrow> bool"
  jsts_isSimpleLinearGeometry :: "geometry \<Rightarrow> bool"
  jsts_isNodeConsistentArea :: "geometry \<Rightarrow> bool"
  jsts_getInvalidPoint :: "geometry \<Rightarrow> position"

section \<open>Strings and the regular expressions of the converter\<close>

text \<open>
  \<^verbatim>\<open>\d\<close> and \<^verbatim>\<open>\s\<close> on the characters of the model (the ASCII white space; the
  Unicode spaces that \<^verbatim>\<open>\s\<close> also accepts are not values of \<open>char\<close>).
\<close>

definition isDigit :: "char \<Rightarrow> bool" where
  "isDigit c \<longleftrightarrow> c \<in> set ''0123456789''"

definition isSpace :: "char \<Rightarrow> bool" where
  "isSpace c \<longleftrightarrow> c \<in> {CHR '' '', CHR 0x09, CHR 0x0A, CHR 0x0B, CHR 0x0C, CHR 0x0D}"

text \<open>\<^verbatim>\<open>REGEX_COORDINATES = /^[0-9]{6}[NS]\s+[0-9]{7}[EW]$/\<close>\<close>

definition REGEX_COORDINATES :: "string \<Rightarrow> bool" where
  "REGEX_COORDINATES s =
     (let lat = take 6 s;
          ns = take 1 (drop 6 s);
          gap = takeWhile isSpace (drop 7 s);
          rest = dropWhile isSpace (drop 7 s)
      in length lat = 6 \<and> list_all isDigit lat
         \<and> (ns = ''N'' \<or> ns = ''S'')
         \<and> gap \<noteq> []
         \<and> length rest = 8 \<and> list_all isDigit (take 7 rest)
         \<and> (drop 7 rest = ''E'' \<or> drop 7 rest = ''W''))"

text \<open>\<^verbatim>\<open>REGEX_ARC_DIR = /^(cw|ccw)$/\<close>\<close>

definition REGEX_ARC_DIR :: "string \<Rightarrow> bool" where
  "REGEX_ARC_DIR s \<longleftrightarrow> s = ''cw'' \<or> s = ''ccw''"

text \<open>\<^verbatim>\<open>REGEX_ARC_RADIUS = /^(\d+(\.\d+)?)\s*(NM|nm)?$/\<close>\<close>

definition REGEX_ARC_RADIUS :: "string \<Rightarrow> bool" where
  "REGEX_ARC_RADIUS s =
     (let whole = takeWhile isDigit s;
          r1 = dropWhile isDigit s;
          r2 = (case r1 of
                  c # t \<Rightarrow> if c = CHR ''.'' \<and> takeWhile isDigit t \<noteq> []
                            then dropWhile isDigit t else r1
                | [] \<Rightarrow> r1);
          unit = dropWhile isSpace r2
      in whole \<noteq> [] \<and> (unit = [] \<or> unit = ''NM'' \<or> unit = ''nm''))"

text \<open>\<^verbatim>\<open>s.split(sep)\<close> for a one-character separator, \<^verbatim>\<open>s.trim()\<close> and
  \<^verbatim>\<open>s.substring(from, to)\<close> with \<open>from \<le> to\<close>.\<close>

fun split :: "char \<Rightarrow> string \<Rightarrow> string list" where
  "split sep [] = [[]]"
| "split sep (c # cs) =
     (if c = sep then [] # split sep cs
      else (case split sep cs of
              piece # pieces \<Rightarrow> (c # piece) # pieces
            | [] \<Rightarrow> [[c]]))"

definition trim :: "string \<Rightarrow> string" where
  "trim s = rev (dropWhile isSpace (rev (dropWhile isSpace s)))"

definition substring :: "nat \<Rightarrow> nat \<Rightarrow> string \<Rightarrow> string" where
  "substring from to s = take (to - from) (drop from s)"

section \<open>The boundary resolver\<close>

text \<open>
  \<^verbatim>\<open>transformCoordinates(coordinateString)\<close>: the string is split at every blank and
  its first two pieces are reformatted as \<^verbatim>\<open>DD:MM:SS H\<close> and \<^verbatim>\<open>DDD:MM:SS H\<close> and handed to the parser;
  every exception inside the \<^verbatim>\<open>try\<close> block (a missing second piece makes
  \<^verbatim>\<open>coord.trim()\<close> throw, the parser may throw) becomes the converter's own error.
\<close>

definition formatLatitude :: "string \<Rightarrow> string" where
  "formatLatitude coord0 =
     (let coord = trim coord0;
          deg = substring 0 2 coord;
          min = substring 2 4 coord;
          sec = substring 4 6 coord;
          ordinalDir = substring 6 7 coord
      in deg @ '':'' @ min @ '':'' @ sec @ '' '' @ ordinalDir)"

definition formatLongitude :: "string \<Rightarrow> string" where
  "formatLongitude coord0 =
     (let coord = trim coord0;
          deg = substring 0 3 coord;
          min = substring 3 5 coord;
          sec = substring 5 7 coord;
          ordinalDir = substring 7 8 coord
      in deg @ '':'' @ min @ '':'' @ sec @ '' '' @ ordinalDir)"

definition transformCoordinates :: "libraries \<Rightarrow> converter \<Rightarrow> string \<Rightarrow> error + position" where
  "transformCoordinates L cv coordinateString =
     (case split CHR '' '' coordinateString of
        coordLat # coordLon # _ \<Rightarrow>
          (case coordinateParser L (formatLatitude coordLat @ '','' @ formatLongitude coordLon) of
             Some coord \<Rightarrow> Inr coord
           | None \<Rightarrow> Inl (ConverterError (FailedToTransformCoordinates coordinateString)
                            (ident cv) (seqno cv)))
      | _ \<Rightarrow> Inl (ConverterError (FailedToTransformCoordinates coordinateString)
                    (ident cv) (seqno cv)))"

text \<open>\<^verbatim>\<open>createCoordinatesFromLine(boundaryDefinition)\<close>; the loop stops at the first
  coordinate that fails.  An empty array is refused (as is, in the source, a value that
  is not an array).\<close>

fun transformLine :: "libraries \<Rightarrow> converter \<Rightarrow> string list \<Rightarrow> error + position list" where
  "transformLine L cv [] = Inr []"
| "transformLine L cv (coordinate # coordinates) =
     (if \<not> REGEX_COORDINATES coordinate
      then Inl (ConverterError (InvalidLineCoordinate coordinate) (ident cv) (seqno cv))
      else (case transformCoordinates L cv coordinate of
              Inl e \<Rightarrow> Inl e
            | Inr coord \<Rightarrow>
                (case transformLine L cv coordinates of
                   Inl e \<Rightarrow> Inl e
                 | Inr coords \<Rightarrow> Inr (coord # coords))))"

definition createCoordinatesFromLine ::
  "libraries \<Rightarrow> converter \<Rightarrow> string list \<Rightarrow> error + position list" where
  "createCoordinatesFromLine L cv coordinates =
     (if coordinates = []
      then Inl (ConverterError InvalidLineBoundary (ident cv) (seqno cv))
      else transformLine L cv coordinates)"

text \<open>
  Modelled from the spec: turf's \<^verbatim>\<open>lineString\<close> is not under src/.  A point set that
  is too small to be a line (fewer than two positions) raises an error (section 4.7,
  stage 4: "too-small point sets").
\<close>

definition createLineString :: "position list \<Rightarrow> string + position list" where
  "createLineString coordinates =
     (if length coordinates < 2
      then Inl ''coordinates must be an array of two or more positions''
      else Inr coordinates)"

text \<open>
  \<^verbatim>\<open>createArc\<close> is turf's \<^verbatim>\<open>lineArc\<close>: the positions it computes are returned as
  a LineString feature built by \<^verbatim>\<open>lineString\<close>, so the call throws when fewer than
  two positions were computed, and whenever the computation itself throws.
\<close>

definition createArc ::
  "libraries \<Rightarrow> position \<Rightarrow> real \<Rightarrow> real \<Rightarrow> real \<Rightarrow> int \<Rightarrow> string + position list" where
  "createArc L centerPoint radiusKm startBearing endBearing steps =
     (case turf_lineArc L centerPoint radiusKm startBearing endBearing steps of
        Inl msg \<Rightarrow> Inl msg
      | Inr coordinates \<Rightarrow> createLineString coordinates)"

text \<open>
  \<^verbatim>\<open>createCoordinatesFromArc(boundaryDefinition)\<close>.  \<^verbatim>\<open>lastCoord\<close> is the last element
  of \<^verbatim>\<open>this.boundaryCoordinates\<close>, \<^verbatim>\<open>undefined\<close> when the accumulator is empty; the
  checks are made in the order of the source.  For a counter-clockwise arc the start
  and end points are swapped before the bearings are taken and the tessellated list is
  reversed afterwards.  An exception of \<^verbatim>\<open>createArc\<close> is not caught.
\<close>

definition createCoordinatesFromArc ::
  "libraries \<Rightarrow> converter \<Rightarrow> arcDefinition \<Rightarrow> error + position list" where
  "createCoordinatesFromArc L cv a =
     (if boundaryCoordinates cv = []
      then Inl (ConverterError ArcPreviousCoordinateMissing (ident cv) (seqno cv))
      else
        (case (arc_dir a, arc_radius a, arc_centre a, arc_to a) of
           (Some dir, Some radius, Some centre, Some to) \<Rightarrow>
             if \<not> REGEX_ARC_DIR dir
             then Inl (ConverterError (InvalidArcDirection dir) (ident cv) (seqno cv))
             else if \<not> REGEX_ARC_RADIUS radius
             then Inl (ConverterError (InvalidArcRadius radius) (ident cv) (seqno cv))
             else if \<not> REGEX_COORDINATES centre
             then Inl (ConverterError (InvalidArcCentre centre) (ident cv) (seqno cv))
             else if \<not> REGEX_COORDINATES to
             then Inl (ConverterError (InvalidArcTo to) (ident cv) (seqno cv))
             else
               (let isClockwise = (dir = ''cw'');
                    lastCoord = last (boundaryCoordinates cv)
                in case transformCoordinates L cv centre of
                     Inl e \<Rightarrow> Inl e
                   | Inr centerPoint \<Rightarrow>
                       (case transformCoordinates L cv to of
                          Inl e \<Rightarrow> Inl e
                        | Inr toPoint \<Rightarrow>
                            (let startPoint = (if isClockwise then lastCoord else toPoint);
                                 endPoint = (if isClockwise then toPoint else lastCoord);
                                 radiusValue = trim (hd (split CHR '' '' radius));
                                 radiusKm = js_parseFloat L radiusValue * 1.852;
                                 startBearing = turf_bearing L centerPoint startPoint;
                                 endBearing = turf_bearing L centerPoint endPoint
                             in case createArc L centerPoint radiusKm startBearing
                                       endBearing (geometryDetail cv) of
                                  Inl msg \<Rightarrow> Inl (LibraryError msg)
                                | Inr arc \<Rightarrow> Inr (if isClockwise then arc else rev arc))))
         | _ \<Rightarrow> Inl (ConverterError InvalidArcBoundary (ident cv) (seqno cv))))"

text \<open>\<^verbatim>\<open>createCoordinatesFromCircle(boundaryDefinition)\<close>; an exception of
  \<^verbatim>\<open>createCircle\<close> is not caught.\<close>

definition createCoordinatesFromCircle ::
  "libraries \<Rightarrow> converter \<Rightarrow> circleDefinition \<Rightarrow> error + position list" where
  "createCoordinatesFromCircle L cv c =
     (case (circle_radius c, circle_centre c) of
        (Some radius, Some centre) \<Rightarrow>
          if \<not> REGEX_ARC_RADIUS radius
          then Inl (ConverterError (InvalidCircleRadius radius) (ident cv) (seqno cv))
          else if \<not> REGEX_COORDINATES centre
          then Inl (ConverterError (InvalidCircleCentre centre) (ident cv) (seqno cv))
          else
            (let radiusValue = trim (hd (split CHR '' '' radius));
                 radiusKm = js_parseFloat L radiusValue * 1.852
             in case transformCoordinates L cv centre of
                  Inl e \<Rightarrow> Inl e
                | Inr centerPoint \<Rightarrow>
                    (case turf_circle L centerPoint radiusKm (geometryDetail cv) of
                       Inl msg \<Rightarrow> Inl (LibraryError msg)
                     | Inr coordinates \<Rightarrow> Inr coordinates))
      | _ \<Rightarrow> Inl (ConverterError InvalidCircleBoundary (ident cv) (seqno cv)))"

text \<open>
  The \<^verbatim>\<open>for\<close> loop of \<^verbatim>\<open>createPolygonGeometry\<close>: each boundary object is resolved by
  its handler and all returned coordinates are pushed on \<^verbatim>\<open>this.boundaryCoordinates\<close>;
  the first exception ends the loop.
\<close>

definition createCoordinates ::
  "libraries \<Rightarrow> converter \<Rightarrow> boundaryDefinition \<Rightarrow> error + position list" where
  "createCoordinates L cv boundaryDefinition =
     (case boundaryDefinition of
        Line coordinates \<Rightarrow> createCoordinatesFromLine L cv coordinates
      | Arc a \<Rightarrow> createCoordinatesFromArc L cv a
      | Circle c \<Rightarrow> createCoordinatesFromCircle L cv c
      | Other boundaryType \<Rightarrow>
          Inl (ConverterError (UnsupportedBoundaryType boundaryType) (ident cv) (seqno cv)))"

fun resolveBoundary ::
  "libraries \<Rightarrow> converter \<Rightarrow> boundaryDefinition list \<Rightarrow> error + converter" where
  "resolveBoundary L cv [] = Inr cv"
| "resolveBoundary L cv (boundaryDefinition # boundary) =
     (case createCoordinates L cv boundaryDefinition of
        Inl e \<Rightarrow> Inl e
      | Inr coordinates \<Rightarrow>
          resolveBoundary L
            (cv\<lparr>boundaryCoordinates := boundaryCoordinates cv @ coordinates\<rparr>) boundary)"

section \<open>The polygon assembler\<close>

text \<open>
  Modelled from the spec: turf's \<^verbatim>\<open>lineToPolygon\<close> with \<^verbatim>\<open>autoComplete\<close> is not under
  src/.  Section 4.5: "If the first and last points differ, append a copy of the first
  point to close the ring (auto-completion).  Reject rings with fewer than 4 points after
  closure."  The two positions are compared by longitude and latitude.
\<close>

definition autoCompleteCoords :: "position list \<Rightarrow> position list" where
  "autoCompleteCoords coords =
     (if fst (hd coords) \<noteq> fst (last coords) \<or> snd (hd coords) \<noteq> snd (last coords)
      then coords @ [hd coords] else coords)"

definition lineToPolygon :: "position list \<Rightarrow> string + geometry" where
  "lineToPolygon coords =
     (if coords = [] then Inl ''line must contain coordinates''
      else if length (autoCompleteCoords coords) < 4
      then Inl ''Each LinearRing of a Polygon must have 4 or more Positions.''
      else Inr (Polygon [autoCompleteCoords coords]))"

text \<open>
  Modelled from the spec: \<^verbatim>\<open>rewind\<close> of the package geojson-rewind is not under src/.
  Section 4.5: "Reorient the ring so it satisfies the counter-clockwise exterior
  convention (computed via the signed area of the ring: negative signed area
  \<Rightarrow> reverse point order)."  \<open>signedArea\<close> is the shoelace sum over the consecutive
  positions of the ring, positive for a counter-clockwise ring; a ring of signed area
  zero is reversed as well, which leaves its area zero.  Only the exterior ring is
  given this orientation; the converter never builds further rings.
\<close>

fun shoelace :: "position list \<Rightarrow> real" where
  "shoelace (p # q # ps) = (fst p * snd q - fst q * snd p) + shoelace (q # ps)"
| "shoelace _ = 0"

definition signedArea :: "position list \<Rightarrow> real" where
  "signedArea ring = shoelace ring / 2"

definition rewindRing :: "position list \<Rightarrow> position list" where
  "rewindRing ring = (if signedArea ring \<le> 0 then rev ring else ring)"

definition rewind :: "geometry \<Rightarrow> geometry" where
  "rewind g = (case g of
                 Polygon [] \<Rightarrow> Polygon []
               | Polygon (ring # holes) \<Rightarrow> Polygon (rewindRing ring # holes))"

text \<open>
  \<^verbatim>\<open>createPolygonGeometry(boundary)\<close>: the loop above, then \<^verbatim>\<open>lineString\<close>,
  \<^verbatim>\<open>lineToPolygon\<close> and \<^verbatim>\<open>rewind\<close> on the accumulated coordinates.  Errors of the
  library calls are not caught by the converter.  In the source the ring is the
  accumulator array itself, closed and reversed in place (\<^verbatim>\<open>mutate: true\<close>); the model
  returns the geometry and leaves the accumulator to the caller, which resets it.
\<close>

definition createPolygonGeometry ::
  "libraries \<Rightarrow> converter \<Rightarrow> boundaryDefinition list \<Rightarrow> error + geometry" where
  "createPolygonGeometry L cv boundary =
     (case resolveBoundary L cv boundary of
        Inl e \<Rightarrow> Inl e
      | Inr cv' \<Rightarrow>
          (case createLineString (boundaryCoordinates cv') of
             Inl msg \<Rightarrow> Inl (LibraryError msg)
           | Inr lineString \<Rightarrow>
               (case lineToPolygon lineString of
                  Inl msg \<Rightarrow> Inl (LibraryError msg)
                | Inr polygonFeature \<Rightarrow> Inr (rewind polygonFeature))))"

section \<open>Validation and repair\<close>

text \<open>\<^verbatim>\<open>isValid\<close>, \<^verbatim>\<open>isSimple\<close>, \<^verbatim>\<open>getSelfIntersections\<close> and \<^verbatim>\<open>validateGeometry\<close>:
  the jsts operations are parameters, the control flow is the converter's.\<close>

definition isValid :: "libraries \<Rightarrow> geometry \<Rightarrow> bool" where
  "isValid L polygonGeometry = jsts_isValid L polygonGeometry"

definition isSimple :: "libraries \<Rightarrow> geometry \<Rightarrow> bool" where
  "isSimple L polygonGeometry = jsts_isSimple L polygonGeometry"

definition getSelfIntersections :: "libraries \<Rightarrow> geometry \<Rightarrow> selfIntersect" where
  "getSelfIntersections L polygonGeometry =
     (if jsts_isSimpleLinearGeometry L polygonGeometry then Undefined
      else if \<not> jsts_isNodeConsistentArea L polygonGeometry
      then InvalidPoint (jsts_getInvalidPoint L polygonGeometry)
      else EmptyObject)"

definition validateGeometry :: "libraries \<Rightarrow> geometry \<Rightarrow> bool \<times> bool \<times> selfIntersect" where
  "validateGeometry L geometry =
     (isValid L geometry, isSimple L geometry, getSelfIntersections L geometry)"

text \<open>
  The inner function \<^verbatim>\<open>getPolygon(features)\<close> of \<^verbatim>\<open>createFixedPolygon\<close>:
  \<^verbatim>\<open>polygonArea\<close> starts as \<^verbatim>\<open>null\<close>, which \<^verbatim>\<open>>=\<close> compares as 0; a later feature
  of equal area replaces an earlier one.
\<close>

definition getPolygonCallback ::
  "libraries \<Rightarrow> geometry \<Rightarrow> geometry option \<times> real option \<Rightarrow> geometry option \<times> real option" where
  "getPolygonCallback L feature state =
     (let area = turf_area L feature;
          polygonArea = (case snd state of None \<Rightarrow> 0 | Some a \<Rightarrow> a)
      in if area \<ge> polygonArea then (Some feature, Some area) else state)"

definition getPolygon :: "libraries \<Rightarrow> geometry list \<Rightarrow> geometry option" where
  "getPolygon L features = fst (fold (getPolygonCallback L) features (None, None))"

text \<open>
  \<^verbatim>\<open>createFixedPolygon(coordinates)\<close>.  \<open>unkinked\<close> is the body of the outer
  \<^verbatim>\<open>try\<close> after the overlap removal; reading \<^verbatim>\<open>.geometry\<close> of \<^verbatim>\<open>null\<close> (no feature
  selected) throws like the library calls do.  Any exception there leads to the
  envelope of the cleaned coordinates, whose own exception is thrown again with the
  same message.
\<close>

definition unkinked :: "libraries \<Rightarrow> position list \<Rightarrow> string + geometry" where
  "unkinked L coordinates =
     (case createLineString coordinates of
        Inl msg \<Rightarrow> Inl msg
      | Inr linestring \<Rightarrow>
          (case lineToPolygon linestring of
             Inl msg \<Rightarrow> Inl msg
           | Inr polygon \<Rightarrow>
               (case turf_unkinkPolygon L polygon of
                  Inl msg \<Rightarrow> Inl msg
                | Inr features \<Rightarrow>
                    (case getPolygon L features of
                       None \<Rightarrow> Inl ''Cannot read properties of null''
                     | Some feature \<Rightarrow> Inr feature))))"

definition createFixedPolygon :: "libraries \<Rightarrow> position list \<Rightarrow> string + geometry" where
  "createFixedPolygon L coordinates0 =
     (let coordinates1 = removeDuplicates (turf_distance L) coordinates0;
          coordinates = removeOverlapPoints (js_parseInt L) (turf_bearing L) coordinates1
      in case unkinked L coordinates of
           Inr geometry \<Rightarrow> Inr geometry
         | Inl _ \<Rightarrow> turf_envelope L coordinates)"

text \<open>
  \<^verbatim>\<open>fixGeometry(geometry)\<close>: the repair runs on the first ring only when the validation
  reports a defect; an exception of the repair is reported with the identifiers of the
  airspace.  A geometry without rings makes the repair throw.
\<close>

definition fixGeometry :: "libraries \<Rightarrow> converter \<Rightarrow> geometry \<Rightarrow> error + geometry" where
  "fixGeometry L cv geometry =
     (case validateGeometry L geometry of
        (valid, simple, selfIntersect) \<Rightarrow>
          if \<not> valid \<or> \<not> simple \<or> selfIntersect \<noteq> Undefined
          then (case geometry of
                  Polygon [] \<Rightarrow>
                    Inl (ConverterError (FailedToCreateFixedGeometry ''coordinates is not iterable'')
                           (ident cv) (seqno cv))
                | Polygon (ring # _) \<Rightarrow>
                    (case createFixedPolygon L ring of
                       Inl msg \<Rightarrow>
                         Inl (ConverterError (FailedToCreateFixedGeometry msg) (ident cv) (seqno cv))
                     | Inr fixedGeometry \<Rightarrow> Inr fixedGeometry))
          else Inr geometry)"

section \<open>A concrete instance of the libraries\<close>

text \<open>
  The theorems below hold for every instance of \<open>libraries\<close>.  To evaluate the model
  on concrete inputs one instance is fixed here: coordinates are decoded from the
  \<^verbatim>\<open>DD:MM:SS H,DDD:MM:SS H\<close> text as section 4.1 of the spec describes, bearings are
  those of legs parallel to an axis of a plane chart (0 for any other leg), distances
  are taken along the axes with 111.12 km to the degree, arcs and circles are
  tessellated on the sphere as turf does, nothing is unkinked, the envelope is the
  bounding rectangle, and the only validity check is that a ring keeps at least four
  positions once repeated positions are removed.
\<close>

definition digitValue :: "char \<Rightarrow> nat" where
  "digitValue c = of_char c - 48"

definition decimal :: "string \<Rightarrow> nat" where
  "decimal s = foldl (\<lambda>n c. 10 * n + digitValue c) 0 s"

definition degrees :: "string \<Rightarrow> string \<Rightarrow> string \<Rightarrow> real" where
  "degrees d m s = real (decimal d) + real (decimal m) / 60 + real (decimal s) / 3600"

definition chartCoordinates :: "string \<Rightarrow> position option" where
  "chartCoordinates s =
     (let latDeg = substring 0 2 s; latMin = substring 3 5 s; latSec = substring 6 8 s;
          latDir = substring 9 10 s;
          lonDeg = substring 11 14 s; lonMin = substring 15 17 s; lonSec = substring 18 20 s;
          lonDir = substring 21 22 s;
          lat = degrees latDeg latMin latSec;
          lon = degrees lonDeg lonMin lonSec
      in if length s = 22
            \<and> list_all isDigit (latDeg @ latMin @ latSec @ lonDeg @ lonMin @ lonSec)
            \<and> decimal latMin < 60 \<and> decimal latSec < 60
            \<and> decimal lonMin < 60 \<and> decimal lonSec < 60
            \<and> lat \<le> 90 \<and> lon \<le> 180
            \<and> (latDir = ''N'' \<or> latDir = ''S'') \<and> (lonDir = ''E'' \<or> lonDir = ''W'')
         then Some (if lonDir = ''W'' then - lon else lon, if latDir = ''S'' then - lat else lat)
         else None)"

definition chartFloat :: "string \<Rightarrow> real" where
  "chartFloat s =
     (let whole = takeWhile isDigit s; r = dropWhile isDigit s
      in case r of
           c # t \<Rightarrow> if c = CHR ''.''
                     then real (decimal whole)
                          + real (decimal (takeWhile isDigit t)) / 10 ^ length (takeWhile isDigit t)
                     else real (decimal whole)
         | [] \<Rightarrow> real (decimal whole))"

definition chartInt :: "real \<Rightarrow> int" where
  "chartInt r = (if r < 0 then \<lceil>r\<rceil> else \<lfloor>r\<rfloor>)"

definition chartBearing :: "position \<Rightarrow> position \<Rightarrow> real" where
  "chartBearing a b =
     (if snd a = snd b \<and> fst a < fst b then 90
      else if snd a = snd b \<and> fst b < fst a then - 90
      else if fst a = fst b \<and> snd b < snd a then 180
      else 0)"

text \<open>
  The tessellation of the instance follows \<^verbatim>\<open>destination\<close>, \<^verbatim>\<open>circle\<close> and
  \<^verbatim>\<open>lineArc\<close> of turf 6.5.0, the version the package requires, over the reals.
  \<^verbatim>\<open>x % m\<close> keeps the sign of \<open>x\<close>; \<^verbatim>\<open>Math.atan2\<close> is given by cases on the signs
  (the reals have no negative zero).  The earth radius is 6371.0088 km.
\<close>

definition jsRemainder :: "real \<Rightarrow> real \<Rightarrow> real" where
  "jsRemainder x m = x - m * of_int (if x / m < 0 then \<lceil>x / m\<rceil> else \<lfloor>x / m\<rfloor>)"

definition atan2 :: "real \<Rightarrow> real \<Rightarrow> real" where
  "atan2 y x =
     (if 0 < x then arctan (y / x)
      else if x < 0 then (if 0 \<le> y then arctan (y / x) + pi else arctan (y / x) - pi)
      else if 0 < y then pi / 2
      else if y < 0 then - (pi / 2)
      else 0)"

definition degreesToRadians :: "real \<Rightarrow> real" where
  "degreesToRadians d = jsRemainder d 360 * pi / 180"

definition radiansToDegrees :: "real \<Rightarrow> real" where
  "radiansToDegrees r = jsRemainder r (2 * pi) * 180 / pi"

definition turfDestination :: "position \<Rightarrow> real \<Rightarrow> real \<Rightarrow> position" where
  "turfDestination origin km bearing =
     (let longitude1 = degreesToRadians (fst origin);
          latitude1 = degreesToRadians (snd origin);
          bearingRad = degreesToRadians bearing;
          radians = km / 6371.0088;
          latitude2 = arcsin (sin latitude1 * cos radians
                              + cos latitude1 * sin radians * cos bearingRad);
          longitude2 = longitude1
                       + atan2 (sin bearingRad * sin radians * cos latitude1)
                               (cos radians - sin latitude1 * sin latitude2)
      in (radiansToDegrees longitude2, radiansToDegrees latitude2))"

definition convertAngleTo360 :: "real \<Rightarrow> real" where
  "convertAngleTo360 alfa =
     (let beta = jsRemainder alfa 360 in if beta < 0 then beta + 360 else beta)"

text \<open>
  \<^verbatim>\<open>circle\<close>: \<^verbatim>\<open>steps\<close> positions at the bearings \<^verbatim>\<open>(i * -360) / steps\<close>, closed by
  the first one; \<^verbatim>\<open>options.steps || 64\<close> replaces 0 by 64; \<^verbatim>\<open>polygon\<close> throws on a
  ring of fewer than four positions.
\<close>

definition turfCircle :: "position \<Rightarrow> real \<Rightarrow> int \<Rightarrow> string + position list" where
  "turfCircle center km steps0 =
     (let steps = (if steps0 = 0 then 64 else steps0);
          coordinates = map (\<lambda>i. turfDestination center km (real i * (- 360) / real_of_int steps))
                          [0..<nat steps]
      in if length coordinates + 1 < 4
         then Inl ''Each LinearRing of a Polygon must have 4 or more Positions.''
         else Inr (coordinates @ [hd coordinates]))"

text \<open>
  \<^verbatim>\<open>lineArc\<close>: equal angles give the circle; otherwise a position is computed at
  \<^verbatim>\<open>arcStartDegree + (i * 360) / steps\<close> for \<open>i = 0, 1, \<dots>\<close> while that angle is below
  \<^verbatim>\<open>arcEndDegree\<close> (these are the first \<open>n\<close> angles, \<open>n\<close> the sweep divided by the
  step and rounded up), and the position at \<^verbatim>\<open>arcEndDegree\<close> is added only when the
  first angle not below it is above it.  For a negative \<^verbatim>\<open>steps\<close> the loop of the
  library does not end; the instance gives an error there.
\<close>

definition turfLineArc ::
  "position \<Rightarrow> real \<Rightarrow> real \<Rightarrow> real \<Rightarrow> int \<Rightarrow> string + position list" where
  "turfLineArc center km bearing1 bearing2 steps0 =
     (let steps = (if steps0 = 0 then 64 else steps0);
          angle1 = convertAngleTo360 bearing1;
          angle2 = convertAngleTo360 bearing2
      in if angle1 = angle2 then turfCircle center km steps0
         else if steps < 0 then Inl ''lineArc does not return''
         else
           (let arcStartDegree = angle1;
                arcEndDegree = (if angle1 < angle2 then angle2 else angle2 + 360);
                n = nat \<lceil>(arcEndDegree - arcStartDegree) * real_of_int steps / 360\<rceil>;
                coordinates = map (\<lambda>i. turfDestination center km
                                         (arcStartDegree + real i * 360 / real_of_int steps))
                                [0..<n];
                alfa = arcStartDegree + real n * 360 / real_of_int steps
            in Inr (if alfa > arcEndDegree
                    then coordinates @ [turfDestination center km arcEndDegree]
                    else coordinates)))"

definition chartDistance :: "position \<Rightarrow> position \<Rightarrow> real" where
  "chartDistance a b = 111.12 * (\<bar>fst a - fst b\<bar> + \<bar>snd a - snd b\<bar>)"

definition chartEnvelope :: "position list \<Rightarrow> string + geometry" where
  "chartEnvelope ps =
     (case ps of
        [] \<Rightarrow> Inl ''no coordinates''
      | p # qs \<Rightarrow>
          (let west = fold min (map fst qs) (fst p); east = fold max (map fst qs) (fst p);
               south = fold min (map snd qs) (snd p); north = fold max (map snd qs) (snd p)
           in Inr (Polygon [[(west, south), (east, south), (east, north), (west, north),
                             (west, south)]])))"

definition chartValid :: "geometry \<Rightarrow> bool" where
  "chartValid g = (case g of
                     Polygon [] \<Rightarrow> False
                   | Polygon (ring # _) \<Rightarrow> 4 \<le> length (remdups_adj ring))"

definition chart :: libraries where
  "chart =
     \<lparr>coordinateParser = chartCoordinates,
      js_parseFloat = chartFloat,
      js_parseInt = chartInt,
      turf_bearing = chartBearing,
      turf_lineArc = turfLineArc,
      turf_circle = turfCircle,
      turf_distance = chartDistance,
      turf_unkinkPolygon = (\<lambda>polygon. Inr [polygon]),
      turf_area = (\<lambda>g. case g of Polygon [] \<Rightarrow> 0 | Polygon (ring # _) \<Rightarrow> \<bar>signedArea ring\<bar>),
      turf_envelope = chartEnvelope,
      jsts_isValid = chartValid,
      jsts_isSimple = (\<lambda>g. True),
      jsts_isSimpleLinearGeometry = (\<lambda>g. True),
      jsts_isNodeConsistentArea = (\<lambda>g. True),
      jsts_getInvalidPoint = (\<lambda>g. case g of Polygon [] \<Rightarrow> (0, 0) | Polygon (ring # _) \<Rightarrow> hd ring)\<rparr>"

section \<open>Deduplication\<close>

definition spaced :: "('c \<Rightarrow> 'c \<Rightarrow> real) \<Rightarrow> 'c list \<Rightarrow> bool" where
  "spaced distance ps \<longleftrightarrow>
     (\<forall>j < length ps. \<forall>i < j. \<not> distance (ps ! i) (ps ! j) < 0.001)"

lemma find_None_iff_far:
  "find P xs = None \<longleftrightarrow> (\<forall>x \<in> set xs. \<not> P x)"
  by (induction xs) auto

lemma spaced_Nil: "spaced distance []"
  by (simp add: spaced_def)

lemma spaced_snoc:
  "spaced distance (ps @ [c]) \<longleftrightarrow>
     spaced distance ps \<and> (\<forall>v \<in> set ps. \<not> distance v c < 0.001)"
proof
  assume a: "spaced distance (ps @ [c])"
  have "spaced distance ps"
    unfolding spaced_def
  proof (intro allI impI)
    fix j i assume "j < length ps" "i < j"
    then have "j < length (ps @ [c])" by simp
    with a \<open>i < j\<close> have "\<not> distance ((ps @ [c]) ! i) ((ps @ [c]) ! j) < 0.001"
      unfolding spaced_def by blast
    with \<open>j < length ps\<close> \<open>i < j\<close> show "\<not> distance (ps ! i) (ps ! j) < 0.001"
      by (simp add: nth_append)
  qed
  moreover have "\<forall>v \<in> set ps. \<not> distance v c < 0.001"
  proof
    fix v assume "v \<in> set ps"
    then obtain i where i: "i < length ps" "ps ! i = v"
      by (auto simp: in_set_conv_nth)
    have "length ps < length (ps @ [c])" by simp
    with a i(1) have "\<not> distance ((ps @ [c]) ! i) ((ps @ [c]) ! length ps) < 0.001"
      unfolding spaced_def by blast
    with i show "\<not> distance v c < 0.001"
      by (simp add: nth_append)
  qed
  ultimately show "spaced distance ps \<and> (\<forall>v \<in> set ps. \<not> distance v c < 0.001)" ..
next
  assume a: "spaced distance ps \<and> (\<forall>v \<in> set ps. \<not> distance v c < 0.001)"
  show "spaced distance (ps @ [c])"
    unfolding spaced_def
  proof (intro allI impI)
    fix j i assume j: "j < length (ps @ [c])" and i: "i < j"
    show "\<not> distance ((ps @ [c]) ! i) ((ps @ [c]) ! j) < 0.001"
    proof (cases "j < length ps")
      case True
      with a i show ?thesis
        by (simp add: spaced_def nth_append)
    next
      case False
      with j have "j = length ps" by simp
      with a i show ?thesis
        by (simp add: nth_append)
    qed
  qed
qed

lemma dedupCallback_spaced:
  "spaced distance processed \<Longrightarrow> spaced distance (dedupCallback distance coord processed)"
  by (auto simp: dedupCallback_def spaced_snoc find_None_iff_far split: option.splits)

lemma fold_dedup_spaced:
  "spaced distance processed \<Longrightarrow> spaced distance (fold (dedupCallback distance) coordinates processed)"
  by (induction coordinates arbitrary: processed) (simp_all add: dedupCallback_spaced)

lemma removeDuplicates_spaced: "spaced distance (removeDuplicates distance coordinates)"
  by (simp add: removeDuplicates_def fold_dedup_spaced spaced_Nil)

lemma removeDuplicates_fixes_spaced:
  "spaced distance ps \<Longrightarrow> removeDuplicates distance ps = ps"
proof (induction ps rule: rev_induct)
  case Nil
  show ?case by (simp add: removeDuplicates_def)
next
  case (snoc c ps)
  from snoc.prems have sp: "spaced distance ps" and far: "\<forall>v \<in> set ps. \<not> distance v c < 0.001"
    by (simp_all add: spaced_snoc)
  from snoc.IH [OF sp] have "fold (dedupCallback distance) ps [] = ps"
    by (simp add: removeDuplicates_def)
  moreover from far have "dedupCallback distance c ps = ps @ [c]"
    by (simp add: dedupCallback_def find_None_iff_far split: option.splits)
  ultimately show ?case
    by (simp add: removeDuplicates_def)
qed

text \<open>
  C8.  Deduplication is idempotent: applied to its own output it returns that output
  unchanged; and in its output no point lies within 0.001 km of an earlier retained
  point (measured, as the source does, from the earlier point to the later one).
\<close>

theorem removeDuplicates_idempotent:
  "removeDuplicates distance (removeDuplicates distance coordinates)
     = removeDuplicates distance coordinates
   \<and> (\<forall>j < length (removeDuplicates distance coordinates). \<forall>i < j.
        \<not> distance (removeDuplicates distance coordinates ! i)
                     (removeDuplicates distance coordinates ! j) < 0.001)"
proof
  show "removeDuplicates distance (removeDuplicates distance coordinates)
          = removeDuplicates distance coordinates"
    by (rule removeDuplicates_fixes_spaced) (rule removeDuplicates_spaced)
  show "\<forall>j < length (removeDuplicates distance coordinates). \<forall>i < j.
          \<not> distance (removeDuplicates distance coordinates ! i)
                       (removeDuplicates distance coordinates ! j) < 0.001"
    using removeDuplicates_spaced [of distance coordinates] by (simp add: spaced_def)
qed

theorem removeDuplicates_idempotent_witness:
  "removeDuplicates (\<lambda>a b. \<bar>a - b\<bar>) (removeDuplicates (\<lambda>a b. \<bar>a - b\<bar>) [0, 0.0005, 1 :: real])
     = [0, 1]
   \<and> removeDuplicates (\<lambda>a b. \<bar>a - b\<bar>) [0, 0.0005, 1 :: real] = [0, 1]"
  using removeDuplicates_idempotent [of "\<lambda>a b. \<bar>a - b\<bar>" "[0, 0.0005, 1 :: real]"]
  by (simp add: removeDuplicates_def dedupCallback_def)

section \<open>Overlap removal\<close>

lemma fold_overlapCallback:
  "k \<le> length xs \<Longrightarrow>
   fst (fold (overlapCallback pI cB xs) [k..<length xs] (fp, lb))
     = fp @ overlapFrom pI cB lb (drop k xs)"
proof (induction "length xs - k" arbitrary: k fp lb)
  case 0
  then show ?case by simp
next
  case (Suc n)
  then have k: "k < length xs" by simp
  have upt: "[k..<length xs] = k # [Suc k..<length xs]"
    using k by (simp add: upt_conv_Cons)
  have dk: "drop k xs = xs ! k # drop (Suc k) xs"
    using k by (simp add: Cons_nth_drop_Suc)
  have n: "n = length xs - Suc k" using Suc.hyps(2) by simp
  show ?case
  proof (cases "Suc k < length xs")
    case True
    then have dk2: "drop (Suc k) xs = xs ! Suc k # drop (Suc (Suc k)) xs"
      by (simp add: Cons_nth_drop_Suc)
    have le: "Suc k \<le> length xs" using k by simp
    show ?thesis
      using True Suc.hyps(1) [OF n le]
      by (simp add: upt dk dk2 overlapCallback_def Let_def)
  next
    case False
    with k have last: "Suc k = length xs" by simp
    then have "drop (Suc k) xs = []" by simp
    with last show ?thesis
      by (simp add: upt dk overlapCallback_def Let_def)
  qed
qed

lemma removeOverlapPoints_overlapFrom:
  "removeOverlapPoints pI cB xs = overlapFrom pI cB None xs"
  using fold_overlapCallback [of 0 xs pI cB "[]" None]
  by (simp add: removeOverlapPoints_def)

lemma overlapFrom_last:
  "xs \<noteq> [] \<Longrightarrow> overlapFrom pI cB lb xs \<noteq> [] \<and> last (overlapFrom pI cB lb xs) = last xs"
  by (induction pI cB lb xs rule: overlapFrom.induct) (simp_all add: Let_def)

lemma overlapFrom_subseq: "subseq (overlapFrom pI cB lb xs) xs"
  by (induction pI cB lb xs rule: overlapFrom.induct) (auto simp: Let_def)

text \<open>
  C10.  On a non-empty sequence the overlap removal keeps the final input coordinate
  as the final output coordinate, and its output is a subsequence of the input: the
  retained points in their original order.
\<close>

theorem removeOverlapPoints_keeps_last:
  "coordinates \<noteq> [] \<Longrightarrow>
     removeOverlapPoints parseInt calcBearing coordinates \<noteq> []
     \<and> last (removeOverlapPoints parseInt calcBearing coordinates) = last coordinates
     \<and> subseq (removeOverlapPoints parseInt calcBearing coordinates) coordinates"
  by (simp add: removeOverlapPoints_overlapFrom overlapFrom_last overlapFrom_subseq)

theorem removeOverlapPoints_keeps_last_witness:
  "removeOverlapPoints chartInt chartBearing [(2, 0), (0, 0), (1, 0), (1, 1)]
     = [(2, 0), (1, 0), (1, 1)]
   \<and> last (removeOverlapPoints chartInt chartBearing [(2, 0), (0, 0), (1, 0), (1, 1)]) = (1, 1)
   \<and> subseq (removeOverlapPoints chartInt chartBearing [(2, 0), (0, 0), (1, 0), (1, 1)])
        [(2, 0), (0, 0), (1, 0), (1, 1)]"
  using removeOverlapPoints_keeps_last
    [of "[(2, 0), (0, 0), (1, 0), (1, 1)]" chartInt chartBearing]
  by (simp add: removeOverlapPoints_overlapFrom chartInt_def chartBearing_def)

text \<open>
  C2.  The reversal test of the source is \<^verbatim>\<open>nextBearing - 180 === lastBearing\<close> only:
  the branch that would add 180 is guarded by \<^verbatim>\<open>nextBearing > 360 && nextBearing < 180\<close>
  and is never taken.  A point reached on bearing 90 and left on bearing -90, an exact
  reversal, is therefore retained, while the mirrored spike (reached on -90, left on
  90) is removed.
\<close>

theorem removeOverlapPoints_east_then_west:
  "parseInt (calcBearing a b) = 90 \<Longrightarrow> parseInt (calcBearing b c) = - 90 \<Longrightarrow>
     removeOverlapPoints parseInt calcBearing [a, b, c] = [a, b, c]"
  by (simp add: removeOverlapPoints_overlapFrom)

theorem removeOverlapPoints_east_then_west_witness:
  "chartInt (chartBearing (0, 0) (2, 0)) = 90 \<and> chartInt (chartBearing (2, 0) (1, 0)) = - 90
   \<and> removeOverlapPoints chartInt chartBearing [(0, 0), (2, 0), (1, 0)]
       = [(0, 0), (2, 0), (1, 0)]"
  using removeOverlapPoints_east_then_west [of chartInt chartBearing "(0, 0)" "(2, 0)" "(1, 0)"]
  by (simp add: chartInt_def chartBearing_def)

lemma removeOverlapPoints_west_then_east:
  "parseInt (calcBearing a b) = - 90 \<Longrightarrow> parseInt (calcBearing b c) = 90 \<Longrightarrow>
     removeOverlapPoints parseInt calcBearing [a, b, c] = [a, c]"
  by (simp add: removeOverlapPoints_overlapFrom)

section \<open>Evaluation on the concrete instance\<close>

lemmas chart_simps = chartCoordinates_def chartFloat_def chartInt_def chartBearing_def
  chartDistance_def chartEnvelope_def
  chartValid_def degrees_def decimal_def digitValue_def

lemmas string_simps = isDigit_def isSpace_def trim_def substring_def formatLatitude_def
  formatLongitude_def

lemma chart_transform_north:
  "transformCoordinates chart cv ''010000N 0000000E'' = Inr (0, 1)"
proof -
  have "formatLatitude ''010000N'' @ '','' @ formatLongitude ''0000000E''
          = ''01:00:00 N,000:00:00 E''"
    by (simp add: string_simps)
  moreover have "chartCoordinates ''01:00:00 N,000:00:00 E'' = Some (0, 1)"
    by (simp add: chart_simps string_simps)
  ultimately show ?thesis
    by (simp add: transformCoordinates_def chart_def)
qed

lemma chart_transform_origin:
  "transformCoordinates chart cv ''000000N 0000000E'' = Inr (0, 0)"
proof -
  have "formatLatitude ''000000N'' @ '','' @ formatLongitude ''0000000E''
          = ''00:00:00 N,000:00:00 E''"
    by (simp add: string_simps)
  moreover have "chartCoordinates ''00:00:00 N,000:00:00 E'' = Some (0, 0)"
    by (simp add: chart_simps string_simps)
  ultimately show ?thesis
    by (simp add: transformCoordinates_def chart_def)
qed

lemma chart_transform_east:
  "transformCoordinates chart cv ''000000N 0010000E'' = Inr (1, 0)"
proof -
  have "formatLatitude ''000000N'' @ '','' @ formatLongitude ''0010000E''
          = ''00:00:00 N,001:00:00 E''"
    by (simp add: string_simps)
  moreover have "chartCoordinates ''00:00:00 N,001:00:00 E'' = Some (1, 0)"
    by (simp add: chart_simps string_simps)
  ultimately show ?thesis
    by (simp add: transformCoordinates_def chart_def)
qed

lemma regex_samples:
  "REGEX_COORDINATES ''010000N 0000000E''"
  "REGEX_COORDINATES ''000000N 0000000E''"
  "REGEX_COORDINATES ''000000N 0010000E''"
  "REGEX_ARC_DIR ''cw''"
  "REGEX_ARC_RADIUS ''60 nm''"
  by (simp_all add: REGEX_COORDINATES_def REGEX_ARC_DIR_def REGEX_ARC_RADIUS_def
      isDigit_def isSpace_def)

lemma chart_radius: "js_parseFloat chart (trim ''60'') = 60"
  by (simp add: chart_def chart_simps trim_def isSpace_def isDigit_def)

lemma chart_line_north:
  "createCoordinates chart cv (Line [''010000N 0000000E'']) = Inr [(0, 1)]"
  by (simp add: createCoordinates_def createCoordinatesFromLine_def regex_samples
      chart_transform_north)

lemma chart_triangle:
  "createCoordinates chart cv
     (Line [''000000N 0000000E'', ''000000N 0010000E'', ''010000N 0000000E''])
   = Inr [(0, 0), (1, 0), (0, 1)]"
  by (simp add: createCoordinates_def createCoordinatesFromLine_def regex_samples
      chart_transform_north chart_transform_origin chart_transform_east)

section \<open>The boundary resolver: arcs\<close>

lemma resolveBoundary_append:
  "resolveBoundary L cv (before @ after) =
     (case resolveBoundary L cv before of
        Inl e \<Rightarrow> Inl e
      | Inr cv1 \<Rightarrow> resolveBoundary L cv1 after)"
  by (induction before arbitrary: cv) (simp_all split: sum.splits)

text \<open>
  C9.  When the accumulator is empty at the moment an arc is processed (the segment
  list begins with the arc), the resolver fails with the error whose message ends
  "Previous coordinate pair is missing.", whatever the fields of the arc and whatever
  follows it, and \<^verbatim>\<open>createPolygonGeometry\<close> returns no geometry.
\<close>

theorem arc_first_fails:
  "boundaryCoordinates cv = [] \<Longrightarrow>
     resolveBoundary L cv (Arc a # boundary)
       = Inl (ConverterError ArcPreviousCoordinateMissing (ident cv) (seqno cv))
     \<and> createPolygonGeometry L cv (Arc a # boundary)
       = Inl (ConverterError ArcPreviousCoordinateMissing (ident cv) (seqno cv))"
  by (simp add: createPolygonGeometry_def createCoordinates_def createCoordinatesFromArc_def)

theorem arc_first_fails_witness:
  "createPolygonGeometry chart
     \<lparr>ident = ''ABERDEEN CTA'', seqno = ''1'', geometryDetail = 100, boundaryCoordinates = []\<rparr>
     [Arc \<lparr>arc_dir = Some ''cw'', arc_radius = Some ''10 nm'',
           arc_centre = Some ''571834N 0021602W'', arc_to = Some ''572153N 0015835W''\<rparr>]
   = Inl (ConverterError ArcPreviousCoordinateMissing ''ABERDEEN CTA'' ''1'')"
  using arc_first_fails
    [of "\<lparr>ident = ''ABERDEEN CTA'', seqno = ''1'', geometryDetail = 100,
           boundaryCoordinates = []\<rparr>"
        chart
        "\<lparr>arc_dir = Some ''cw'', arc_radius = Some ''10 nm'',
          arc_centre = Some ''571834N 0021602W'', arc_to = Some ''572153N 0015835W''\<rparr>"
        "[]"]
  by simp

section \<open>When the repair is skipped\<close>

text \<open>
  C4.  When the validation reports a valid and simple geometry and no self
  intersection (\<^verbatim>\<open>getSelfIntersections\<close> returns \<^verbatim>\<open>undefined\<close>), \<^verbatim>\<open>fixGeometry\<close> returns
  the geometry it was given: the repair is not run.
\<close>

theorem fixGeometry_valid_unchanged:
  "validateGeometry L geometry = (True, True, Undefined) \<Longrightarrow>
     fixGeometry L cv geometry = Inr geometry"
  by (simp add: fixGeometry_def)

theorem fixGeometry_valid_unchanged_witness:
  "validateGeometry chart (Polygon [[(0, 0), (1, 0), (0, 1), (0, 0)]]) = (True, True, Undefined)
   \<and> fixGeometry chart
       \<lparr>ident = ''A'', seqno = ''1'', geometryDetail = 100, boundaryCoordinates = []\<rparr>
       (Polygon [[(0, 0), (1, 0), (0, 1), (0, 0)]])
     = Inr (Polygon [[(0, 0), (1, 0), (0, 1), (0, 0)]])"
proof -
  have v: "validateGeometry chart (Polygon [[(0, 0), (1, 0), (0, 1), (0, 0)]])
             = (True, True, Undefined)"
    by (simp add: validateGeometry_def isValid_def isSimple_def getSelfIntersections_def
        chart_def chartValid_def)
  from fixGeometry_valid_unchanged [OF v] v show ?thesis by simp
qed

section \<open>The polygon assembler: closure and orientation\<close>

lemma autoCompleteCoords_closed:
  "coords \<noteq> [] \<Longrightarrow> hd (autoCompleteCoords coords) = last (autoCompleteCoords coords)"
  by (cases coords) (auto simp: autoCompleteCoords_def prod_eq_iff)

lemma autoCompleteCoords_eq:
  "autoCompleteCoords coords = (if hd coords \<noteq> last coords then coords @ [hd coords] else coords)"
  by (auto simp: autoCompleteCoords_def prod_eq_iff)

lemma rewindRing_cases: "rewindRing ring = ring \<or> rewindRing ring = rev ring"
  by (simp add: rewindRing_def)

lemma rewindRing_closed:
  "ring \<noteq> [] \<Longrightarrow> hd ring = last ring \<Longrightarrow> hd (rewindRing ring) = last (rewindRing ring)"
  by (simp add: rewindRing_def hd_rev last_rev)

lemma shoelace_snoc:
  "xs \<noteq> [] \<Longrightarrow>
     shoelace (xs @ [p]) = shoelace xs + (fst (last xs) * snd p - fst p * snd (last xs))"
  by (induction xs rule: shoelace.induct) simp_all

lemma shoelace_rev: "shoelace (rev xs) = - shoelace xs"
proof (induction xs rule: shoelace.induct)
  case (1 p q ps)
  have "shoelace (rev (p # q # ps)) = shoelace (rev (q # ps) @ [p])" by simp
  also have "\<dots> = shoelace (rev (q # ps))
                 + (fst (last (rev (q # ps))) * snd p - fst p * snd (last (rev (q # ps))))"
    by (rule shoelace_snoc) simp
  also have "last (rev (q # ps)) = q" by (simp add: last_rev)
  finally show ?case using "1.IH" by simp
qed simp_all

lemma signedArea_rewindRing: "0 \<le> signedArea (rewindRing ring)"
  by (simp add: rewindRing_def signedArea_def shoelace_rev)

lemma createPolygonGeometry_ring:
  assumes "resolveBoundary L cv boundary = Inr cv'"
  shows "createPolygonGeometry L cv boundary =
           (if length (boundaryCoordinates cv') < 2
            then Inl (LibraryError ''coordinates must be an array of two or more positions'')
            else if length (autoCompleteCoords (boundaryCoordinates cv')) < 4
            then Inl (LibraryError ''Each LinearRing of a Polygon must have 4 or more Positions.'')
            else Inr (Polygon [rewindRing (autoCompleteCoords (boundaryCoordinates cv'))]))"
proof -
  have "length (boundaryCoordinates cv') < 2 \<or> boundaryCoordinates cv' \<noteq> []"
    by (cases "boundaryCoordinates cv'") simp_all
  then show ?thesis
    using assms
    by (auto simp: createPolygonGeometry_def createLineString_def lineToPolygon_def rewind_def)
qed

text \<open>
  C6.  The assembler closes the accumulated sequence by appending a copy of its first
  point when the first and last points differ.  A closed sequence of fewer than four
  points is rejected with an error; otherwise the single ring returned is the closed
  sequence or its reverse, its first point equals its last point and it has at least
  four points.
\<close>

theorem assembler_closes_ring:
  assumes "resolveBoundary L cv boundary = Inr cv'"
  shows
    "let accumulated = boundaryCoordinates cv';
         closed = (if accumulated \<noteq> [] \<and> hd accumulated \<noteq> last accumulated
                   then accumulated @ [hd accumulated] else accumulated)
     in (length closed < 4 \<longrightarrow> (\<exists>e. createPolygonGeometry L cv boundary = Inl e))
        \<and> (4 \<le> length closed \<longrightarrow>
             (\<exists>ring. createPolygonGeometry L cv boundary = Inr (Polygon [ring])
                \<and> (ring = closed \<or> ring = rev closed)
                \<and> hd ring = last ring \<and> 4 \<le> length ring))"
proof -
  let ?acc = "boundaryCoordinates cv'"
  let ?closed = "if ?acc \<noteq> [] \<and> hd ?acc \<noteq> last ?acc then ?acc @ [hd ?acc] else ?acc"
  note ring = createPolygonGeometry_ring [OF assms]
  have small: "\<exists>e. createPolygonGeometry L cv boundary = Inl e" if "length ?closed < 4"
  proof (cases "length ?acc < 2")
    case True
    with ring show ?thesis by simp
  next
    case False
    then have "?acc \<noteq> []" by auto
    then have "autoCompleteCoords ?acc = ?closed" by (simp add: autoCompleteCoords_eq)
    with that False ring show ?thesis by simp
  qed
  have large: "\<exists>ring. createPolygonGeometry L cv boundary = Inr (Polygon [ring])
                 \<and> (ring = ?closed \<or> ring = rev ?closed)
                 \<and> hd ring = last ring \<and> 4 \<le> length ring" if "4 \<le> length ?closed"
  proof -
    from that have ne: "?acc \<noteq> []" by auto
    then have eq: "autoCompleteCoords ?acc = ?closed" by (simp add: autoCompleteCoords_eq)
    from that have two: "\<not> length ?acc < 2"
      by (cases ?acc) (auto split: if_splits simp: Suc_le_eq)
    have res: "createPolygonGeometry L cv boundary
                 = Inr (Polygon [rewindRing (autoCompleteCoords ?acc)])"
      using ring two that eq by simp
    have c1: "hd (autoCompleteCoords ?acc) = last (autoCompleteCoords ?acc)"
      using ne by (rule autoCompleteCoords_closed)
    have c2: "autoCompleteCoords ?acc \<noteq> []"
      using that eq by auto
    have "hd (rewindRing (autoCompleteCoords ?acc)) = last (rewindRing (autoCompleteCoords ?acc))"
      using c2 c1 by (rule rewindRing_closed)
    moreover have "4 \<le> length (rewindRing (autoCompleteCoords ?acc))"
      using that eq by (simp add: rewindRing_def)
    moreover have "rewindRing (autoCompleteCoords ?acc) = ?closed
                   \<or> rewindRing (autoCompleteCoords ?acc) = rev ?closed"
      using rewindRing_cases [of "autoCompleteCoords ?acc"] eq by simp
    ultimately show ?thesis using res by blast
  qed
  from small large show ?thesis unfolding Let_def by blast
qed

theorem assembler_closes_ring_witness:
  "createPolygonGeometry chart
     \<lparr>ident = ''A'', seqno = ''1'', geometryDetail = 100, boundaryCoordinates = []\<rparr>
     [Line [''000000N 0000000E'', ''000000N 0010000E'', ''010000N 0000000E'']]
   = Inr (Polygon [[(0, 0), (1, 0), (0, 1), (0, 0)]])"
proof -
  let ?cv = "\<lparr>ident = ''A'', seqno = ''1'', geometryDetail = 100, boundaryCoordinates = []\<rparr>"
  let ?cv' = "\<lparr>ident = ''A'', seqno = ''1'', geometryDetail = 100,
               boundaryCoordinates = [(0, 0), (1, 0), (0, 1)]\<rparr>"
  let ?boundary = "[Line [''000000N 0000000E'', ''000000N 0010000E'', ''010000N 0000000E'']]"
  have res: "resolveBoundary chart ?cv ?boundary = Inr ?cv'"
    by (simp add: chart_triangle)
  have "createPolygonGeometry chart ?cv ?boundary
          = Inr (Polygon [rewindRing [(0, 0), (1, 0), (0, 1), (0, 0)]])"
    using createPolygonGeometry_ring [OF res] by (simp add: autoCompleteCoords_def)
  moreover have "rewindRing [(0, 0), (1, 0), (0, 1), (0, 0)] = [(0, 0), (1, 0), (0, 1), (0, 0)]"
    by (simp add: rewindRing_def signedArea_def)
  ultimately show ?thesis
    using assembler_closes_ring [OF res] by simp
qed

text \<open>
  C5.  The ring returned by the assembler has non-negative signed area, that is, it is
  wound counter-clockwise (or is degenerate); when the closed sequence has negative
  signed area the returned ring is its reverse.
\<close>

theorem assembler_orients_ring:
  assumes "resolveBoundary L cv boundary = Inr cv'"
    and "createPolygonGeometry L cv boundary = Inr geometry"
  shows "\<exists>ring. geometry = Polygon [ring] \<and> 0 \<le> signedArea ring
           \<and> (signedArea (autoCompleteCoords (boundaryCoordinates cv')) < 0 \<longrightarrow>
                ring = rev (autoCompleteCoords (boundaryCoordinates cv')))"
proof -
  let ?closed = "autoCompleteCoords (boundaryCoordinates cv')"
  from createPolygonGeometry_ring [OF assms(1)] assms(2)
  have g: "geometry = Polygon [rewindRing ?closed]"
    by (auto split: if_splits)
  have "signedArea ?closed < 0 \<longrightarrow> rewindRing ?closed = rev ?closed"
    by (simp add: rewindRing_def)
  with g signedArea_rewindRing [of ?closed] show ?thesis by blast
qed

lemma chart_clockwise_triangle:
  "createCoordinates chart cv
     (Line [''000000N 0000000E'', ''010000N 0000000E'', ''000000N 0010000E''])
   = Inr [(0, 0), (0, 1), (1, 0)]"
  by (simp add: createCoordinates_def createCoordinatesFromLine_def regex_samples
      chart_transform_north chart_transform_origin chart_transform_east)

theorem assembler_orients_ring_witness:
  "createPolygonGeometry chart
     \<lparr>ident = ''A'', seqno = ''1'', geometryDetail = 100, boundaryCoordinates = []\<rparr>
     [Line [''000000N 0000000E'', ''010000N 0000000E'', ''000000N 0010000E'']]
   = Inr (Polygon [[(0, 0), (1, 0), (0, 1), (0, 0)]])
   \<and> signedArea [(0, 0), (0, 1), (1, 0), (0, 0)] = - 1 / 2
   \<and> signedArea [(0, 0), (1, 0), (0, 1), (0, 0)] = 1 / 2"
proof -
  let ?cv = "\<lparr>ident = ''A'', seqno = ''1'', geometryDetail = 100, boundaryCoordinates = []\<rparr>"
  let ?cv' = "\<lparr>ident = ''A'', seqno = ''1'', geometryDetail = 100,
               boundaryCoordinates = [(0, 0), (0, 1), (1, 0)]\<rparr>"
  let ?boundary = "[Line [''000000N 0000000E'', ''010000N 0000000E'', ''000000N 0010000E'']]"
  have res: "resolveBoundary chart ?cv ?boundary = Inr ?cv'"
    by (simp add: chart_clockwise_triangle)
  have closed: "autoCompleteCoords (boundaryCoordinates ?cv') = [(0, 0), (0, 1), (1, 0), (0, 0)]"
    by (simp add: autoCompleteCoords_def)
  have area: "signedArea [(0, 0), (0, 1), (1, 0), (0, 0)] = - 1 / 2"
    "signedArea [(0, 0), (1, 0), (0, 1), (0, 0)] = 1 / 2"
    by (simp_all add: signedArea_def)
  have g: "createPolygonGeometry chart ?cv ?boundary
             = Inr (Polygon [rewindRing [(0, 0), (0, 1), (1, 0), (0, 0)]])"
    using createPolygonGeometry_ring [OF res] closed by simp
  from assembler_orients_ring [OF res g] closed area
  have "rewindRing [(0, 0), (0, 1), (1, 0), (0, 0)] = [(0, 0), (1, 0), (0, 1), (0, 0)]"
    by simp
  with g area show ?thesis by simp
qed

section \<open>The repair of a degenerate ring\<close>

lemma removeDuplicates_same_point:
  "distance p p < 0.001 \<Longrightarrow> removeDuplicates distance [p, p, p, p] = [p]"
  by (simp add: removeDuplicates_def dedupCallback_def)

lemma removeOverlapPoints_single: "removeOverlapPoints parseInt calcBearing [p] = [p]"
  by (simp add: removeOverlapPoints_overlapFrom)

lemma unkinked_single: "\<exists>msg. unkinked L [p] = Inl msg"
  by (simp add: unkinked_def createLineString_def)

text \<open>
  C1.  A ring whose four positions are one and the same point is rejected by the
  validation, and the repair reduces it to that single point: no line string can be
  built, the envelope of the point is taken, and \<^verbatim>\<open>fixGeometry\<close> returns that envelope,
  a ring of five equal positions, without an error and without validating it.
\<close>

theorem fixGeometry_single_point:
  assumes "\<not> isValid L (Polygon [[p, p, p, p]])"
    and "turf_distance L p p < 0.001"
    and "turf_envelope L [p] = Inr (Polygon [[p, p, p, p, p]])"
  shows "fixGeometry L cv (Polygon [[p, p, p, p]]) = Inr (Polygon [[p, p, p, p, p]])"
proof -
  obtain msg where "unkinked L [p] = Inl msg"
    using unkinked_single by blast
  with assms(2,3) have "createFixedPolygon L [p, p, p, p] = Inr (Polygon [[p, p, p, p, p]])"
    by (simp add: createFixedPolygon_def removeDuplicates_same_point removeOverlapPoints_single)
  with assms(1) show ?thesis
    by (simp add: fixGeometry_def validateGeometry_def)
qed

theorem fixGeometry_single_point_witness:
  "\<not> isValid chart (Polygon [[(0, 0), (0, 0), (0, 0), (0, 0)]])
   \<and> fixGeometry chart
       \<lparr>ident = ''A'', seqno = ''1'', geometryDetail = 100, boundaryCoordinates = []\<rparr>
       (Polygon [[(0, 0), (0, 0), (0, 0), (0, 0)]])
     = Inr (Polygon [[(0, 0), (0, 0), (0, 0), (0, 0), (0, 0)]])
   \<and> \<not> isValid chart (Polygon [[(0, 0), (0, 0), (0, 0), (0, 0), (0, 0)]])"
proof -
  have invalid: "\<not> isValid chart (Polygon [[(0, 0), (0, 0), (0, 0), (0, 0)]])"
    "\<not> isValid chart (Polygon [[(0, 0), (0, 0), (0, 0), (0, 0), (0, 0)]])"
    by (simp_all add: isValid_def chart_def chartValid_def)
  have near: "turf_distance chart (0, 0) (0, 0) < 0.001"
    by (simp add: chart_def chartDistance_def)
  have env: "turf_envelope chart [(0, 0)]
               = Inr (Polygon [[(0, 0), (0, 0), (0, 0), (0, 0), (0, 0)]])"
    by (simp add: chart_def chartEnvelope_def)
  from fixGeometry_single_point [OF invalid(1) near env] invalid show ?thesis by simp
qed

section \<open>Evaluation of the tessellation\<close>

lemma jsRemainder_small: "0 \<le> x \<Longrightarrow> x < m \<Longrightarrow> jsRemainder x m = x"
proof -
  assume x: "0 \<le> x" "x < m"
  then have m: "0 < m" by simp
  with x have "0 \<le> x / m" "x / m < 1" by simp_all
  then have "\<lfloor>x / m\<rfloor> = 0" by (simp add: floor_eq_iff)
  with \<open>0 \<le> x / m\<close> show ?thesis by (simp add: jsRemainder_def)
qed


lemma degreesToRadians_values:
  "degreesToRadians 0 = 0" "degreesToRadians 180 = pi"
  by (simp_all add: degreesToRadians_def jsRemainder_small)

lemma convertAngleTo360_values:
  "convertAngleTo360 0 = 0" "convertAngleTo360 180 = 180"
  by (simp_all add: convertAngleTo360_def jsRemainder_small)

lemma radiansToDegrees_small:
  "0 \<le> r \<Longrightarrow> r < 1 \<Longrightarrow> radiansToDegrees r = r * 180 / pi"
proof -
  assume r: "0 \<le> r" "r < 1"
  have "r < 2 * pi" using r pi_ge_two by simp
  with r show ?thesis by (simp add: radiansToDegrees_def jsRemainder_small)
qed


lemma small_angle:
  assumes "0 < d" "d < 1"
  shows "- (pi / 2) < d" "d < pi / 2" "0 < cos d"
proof -
  show a: "- (pi / 2) < d" using assms pi_ge_two by simp
  show b: "d < pi / 2" using assms pi_ge_two by simp
  from a b show "0 < cos d" by (rule cos_gt_zero_pi)
qed

lemma turfDestination_north:
  assumes "0 < km" "km < 6371.0088"
  shows "turfDestination (0, 0) km 0 = (0, km / 6371.0088 * 180 / pi)"
proof -
  define d where "d = km / 6371.0088"
  have d: "0 < d" "d < 1" using assms by (simp_all add: d_def)
  note sa = small_angle [OF d]
  have lat: "arcsin (sin d) = d"
    using sa(1,2) by (intro arcsin_sin) simp_all
  have lon: "atan2 0 (cos d) = 0"
    using sa(3) by (simp add: atan2_def)
  have deg: "radiansToDegrees d = d * 180 / pi"
    using d by (intro radiansToDegrees_small) simp_all
  have zero: "radiansToDegrees 0 = 0"
    by (simp add: radiansToDegrees_small)
  have "turfDestination (0, 0) km 0
          = (radiansToDegrees (atan2 0 (cos d)), radiansToDegrees (arcsin (sin d)))"
    by (simp add: turfDestination_def degreesToRadians_values Let_def d_def)
  also have "\<dots> = (0, d * 180 / pi)"
    by (simp only: lat lon deg zero)
  finally show ?thesis by (simp add: d_def)
qed


lemma chart_transform_south:
  "transformCoordinates chart cv ''010000S 0000000E'' = Inr (0, - 1)"
proof -
  have "formatLatitude ''010000S'' @ '','' @ formatLongitude ''0000000E''
          = ''01:00:00 S,000:00:00 E''"
    by (simp add: string_simps)
  moreover have "chartCoordinates ''01:00:00 S,000:00:00 E'' = Some (0, - 1)"
    by (simp add: chart_simps string_simps)
  ultimately show ?thesis
    by (simp add: transformCoordinates_def chart_def)
qed

lemma regex_samples_south:
  "REGEX_COORDINATES ''010000S 0000000E''"
  "REGEX_ARC_RADIUS ''1 nm''"
  by (simp_all add: REGEX_COORDINATES_def REGEX_ARC_RADIUS_def isDigit_def isSpace_def)

lemma chart_radius_one: "js_parseFloat chart (trim ''1'') = 1"
  by (simp add: chart_def chart_simps trim_def isSpace_def isDigit_def)

lemma upt_3: "[0..<3] = [0, 1, 2]"
  by (simp add: upt_rec)

lemma chart_bearing_north:
  assumes "0 < km" "km < 6371.0088"
  shows "turf_bearing chart (0, 0) (turfDestination (0, 0) km 0) = 0"
proof -
  have "0 < km / 6371.0088 * 180 / pi" using assms by simp
  then show ?thesis
    by (simp add: turfDestination_north [OF assms] chart_def chartBearing_def)
qed

lemma chart_bearing_axes:
  "turf_bearing chart (0, 0) (0, 1) = 0"
  "turf_bearing chart (0, 0) (0, - 1) = 180"
  by (simp_all add: chart_def chartBearing_def)

lemma chart_circle_3:
  "turf_circle chart (0, 0) km 3
     = Inr [turfDestination (0, 0) km 0, turfDestination (0, 0) km (- 120),
            turfDestination (0, 0) km (- 240), turfDestination (0, 0) km 0]"
  by (simp add: chart_def turfCircle_def upt_3)

lemma chart_lineArc_3:
  "turf_lineArc chart (0, 0) km 0 180 3
     = Inr [turfDestination (0, 0) km 0, turfDestination (0, 0) km 120,
            turfDestination (0, 0) km 180]"
proof -
  have n: "nat \<lceil>(180 - 0) * real_of_int 3 / 360 :: real\<rceil> = 2"
    by (simp add: ceiling_eq_iff)
  show ?thesis
    using n by (simp add: chart_def turfLineArc_def convertAngleTo360_values Let_def upt_rec)
qed

lemma chart_createArc_3:
  "createArc chart (0, 0) km 0 180 3
     = Inr [turfDestination (0, 0) km 0, turfDestination (0, 0) km 120,
            turfDestination (0, 0) km 180]"
  by (simp add: createArc_def chart_lineArc_3 createLineString_def)

lemma createArc_length: "createArc L c r b1 b2 n = Inr arc \<Longrightarrow> 2 \<le> length arc"
  by (auto simp: createArc_def createLineString_def split: sum.splits if_splits)

lemma createArc_nonempty: "createArc L c r b1 b2 n = Inr arc \<Longrightarrow> arc \<noteq> []"
  using createArc_length by fastforce

section \<open>Arcs: what is appended\<close>

text \<open>
  C3 (as amended).  When an arc with valid fields is resolved with a non-empty
  accumulator (the tessellation does not throw), the resolver appends all of the arc's
  tessellated points to the accumulator, the first one included even where it
  duplicates the current last point, and the last accumulated point becomes the arc's
  terminal point: the last point of the tessellation for a clockwise arc, and for a
  counter-clockwise arc the first point of the tessellation between the swapped
  bearings, which is returned reversed.
\<close>

theorem arc_appends_tessellation:
  assumes "resolveBoundary L cv before = Inr cv1"
    and "boundaryCoordinates cv1 \<noteq> []"
    and "arc_dir a = Some dir" and "arc_radius a = Some radius"
    and "arc_centre a = Some centre" and "arc_to a = Some to"
    and "REGEX_ARC_DIR dir" and "REGEX_ARC_RADIUS radius"
    and "REGEX_COORDINATES centre" and "REGEX_COORDINATES to"
    and "transformCoordinates L cv1 centre = Inr centerPoint"
    and "transformCoordinates L cv1 to = Inr toPoint"
    and "createArc L centerPoint (js_parseFloat L (trim (hd (split CHR '' '' radius))) * 1.852)
           (turf_bearing L centerPoint
              (if dir = ''cw'' then last (boundaryCoordinates cv1) else toPoint))
           (turf_bearing L centerPoint
              (if dir = ''cw'' then toPoint else last (boundaryCoordinates cv1)))
           (geometryDetail cv1) = Inr arc"
  shows
    "resolveBoundary L cv (before @ Arc a # after)
       = resolveBoundary L
           (cv1\<lparr>boundaryCoordinates :=
                  boundaryCoordinates cv1 @ (if dir = ''cw'' then arc else rev arc)\<rparr>) after
     \<and> last (boundaryCoordinates cv1 @ (if dir = ''cw'' then arc else rev arc))
         = (if dir = ''cw'' then last arc else hd arc)"
proof -
  have ne: "arc \<noteq> []"
    using assms(13) by (rule createArc_nonempty)
  have "createCoordinatesFromArc L cv1 a = Inr (if dir = ''cw'' then arc else rev arc)"
    using assms(2-13) by (simp add: createCoordinatesFromArc_def Let_def)
  then have "resolveBoundary L cv (before @ Arc a # after)
       = resolveBoundary L
           (cv1\<lparr>boundaryCoordinates :=
                  boundaryCoordinates cv1 @ (if dir = ''cw'' then arc else rev arc)\<rparr>) after"
    using assms(1) by (simp add: resolveBoundary_append createCoordinates_def)
  moreover have "last (boundaryCoordinates cv1 @ (if dir = ''cw'' then arc else rev arc))
         = (if dir = ''cw'' then last arc else hd arc)"
    using ne by (simp add: last_rev)
  ultimately show ?thesis by simp
qed

theorem arc_appends_tessellation_witness:
  "resolveBoundary chart
     \<lparr>ident = ''A'', seqno = ''1'', geometryDetail = 3, boundaryCoordinates = []\<rparr>
     [Line [''010000N 0000000E''],
      Arc \<lparr>arc_dir = Some ''cw'', arc_radius = Some ''60 nm'',
           arc_centre = Some ''000000N 0000000E'', arc_to = Some ''010000S 0000000E''\<rparr>]
   = Inr \<lparr>ident = ''A'', seqno = ''1'', geometryDetail = 3,
          boundaryCoordinates =
            [(0, 1), turfDestination (0, 0) (60 * 1.852) 0,
             turfDestination (0, 0) (60 * 1.852) 120,
             turfDestination (0, 0) (60 * 1.852) 180]\<rparr>"
proof -
  let ?cv = "\<lparr>ident = ''A'', seqno = ''1'', geometryDetail = 3, boundaryCoordinates = []\<rparr>"
  let ?cv1 = "\<lparr>ident = ''A'', seqno = ''1'', geometryDetail = 3,
               boundaryCoordinates = [(0, 1)]\<rparr>"
  let ?a = "\<lparr>arc_dir = Some ''cw'', arc_radius = Some ''60 nm'',
             arc_centre = Some ''000000N 0000000E'', arc_to = Some ''010000S 0000000E''\<rparr>"
  have before: "resolveBoundary chart ?cv [Line [''010000N 0000000E'']] = Inr ?cv1"
    by (simp add: chart_line_north)
  have nonempty: "boundaryCoordinates ?cv1 \<noteq> []" by simp
  have fields: "arc_dir ?a = Some ''cw''" "arc_radius ?a = Some ''60 nm''"
    "arc_centre ?a = Some ''000000N 0000000E''" "arc_to ?a = Some ''010000S 0000000E''"
    by simp_all
  have arc: "createArc chart (0, 0) (js_parseFloat chart (trim (hd (split CHR '' '' ''60 nm''))) * 1.852)
           (turf_bearing chart (0, 0)
              (if ''cw'' = ''cw'' then last (boundaryCoordinates ?cv1) else (0, - 1)))
           (turf_bearing chart (0, 0)
              (if ''cw'' = ''cw'' then (0, - 1) else last (boundaryCoordinates ?cv1)))
           (geometryDetail ?cv1)
         = Inr [turfDestination (0, 0) (60 * 1.852) 0, turfDestination (0, 0) (60 * 1.852) 120,
                turfDestination (0, 0) (60 * 1.852) 180]"
    by (simp add: chart_radius chart_bearing_axes chart_createArc_3)
  show ?thesis
    using arc_appends_tessellation [OF before nonempty fields regex_samples(4) regex_samples(5)
        regex_samples(2) regex_samples_south(1) chart_transform_origin chart_transform_south arc,
        of "[]"]
    by simp
qed

theorem arc_keeps_duplicate_counterexample:
  "resolveBoundary chart
     \<lparr>ident = ''A'', seqno = ''1'', geometryDetail = 3, boundaryCoordinates = []\<rparr>
     [Circle \<lparr>circle_radius = Some ''60 nm'', circle_centre = Some ''000000N 0000000E''\<rparr>,
      Arc \<lparr>arc_dir = Some ''cw'', arc_radius = Some ''60 nm'',
           arc_centre = Some ''000000N 0000000E'', arc_to = Some ''010000S 0000000E''\<rparr>]
   = Inr \<lparr>ident = ''A'', seqno = ''1'', geometryDetail = 3,
          boundaryCoordinates =
            [turfDestination (0, 0) (60 * 1.852) 0,
             turfDestination (0, 0) (60 * 1.852) (- 120),
             turfDestination (0, 0) (60 * 1.852) (- 240),
             turfDestination (0, 0) (60 * 1.852) 0,
             turfDestination (0, 0) (60 * 1.852) 0,
             turfDestination (0, 0) (60 * 1.852) 120,
             turfDestination (0, 0) (60 * 1.852) 180]\<rparr>
   \<and> resolveBoundary chart
       \<lparr>ident = ''A'', seqno = ''1'', geometryDetail = 3, boundaryCoordinates = []\<rparr>
       [Circle \<lparr>circle_radius = Some ''60 nm'', circle_centre = Some ''000000N 0000000E''\<rparr>,
        Arc \<lparr>arc_dir = Some ''cw'', arc_radius = Some ''60 nm'',
             arc_centre = Some ''000000N 0000000E'', arc_to = Some ''010000S 0000000E''\<rparr>]
     \<noteq> Inr \<lparr>ident = ''A'', seqno = ''1'', geometryDetail = 3,
            boundaryCoordinates =
              [turfDestination (0, 0) (60 * 1.852) 0,
               turfDestination (0, 0) (60 * 1.852) (- 120),
               turfDestination (0, 0) (60 * 1.852) (- 240),
               turfDestination (0, 0) (60 * 1.852) 0,
               turfDestination (0, 0) (60 * 1.852) 120,
               turfDestination (0, 0) (60 * 1.852) 180]\<rparr>
   \<and> turfDestination (0, 0) (60 * 1.852) 0 = (0, 60 * 1.852 / 6371.0088 * 180 / pi)"
proof -
  let ?cv = "\<lparr>ident = ''A'', seqno = ''1'', geometryDetail = 3, boundaryCoordinates = []\<rparr>"
  let ?c = "\<lparr>circle_radius = Some ''60 nm'', circle_centre = Some ''000000N 0000000E''\<rparr>"
  let ?a = "\<lparr>arc_dir = Some ''cw'', arc_radius = Some ''60 nm'',
             arc_centre = Some ''000000N 0000000E'', arc_to = Some ''010000S 0000000E''\<rparr>"
  let ?ring = "[turfDestination (0, 0) (60 * 1.852) 0, turfDestination (0, 0) (60 * 1.852) (- 120),
                turfDestination (0, 0) (60 * 1.852) (- 240), turfDestination (0, 0) (60 * 1.852) 0]"
  let ?arc = "[turfDestination (0, 0) (60 * 1.852) 0, turfDestination (0, 0) (60 * 1.852) 120,
               turfDestination (0, 0) (60 * 1.852) 180]"
  have km: "(0::real) < 60 * 1.852" "(60 * 1.852 :: real) < 6371.0088" by simp_all
  have circle: "createCoordinates chart ?cv (Circle ?c) = Inr ?ring"
    by (simp add: createCoordinates_def createCoordinatesFromCircle_def regex_samples
        chart_transform_origin chart_radius chart_circle_3 Let_def)
  have bearing: "turf_bearing chart (0, 0) (turfDestination (0, 0) (60 * 1.852) 0) = 0"
    by (rule chart_bearing_north [OF km])
  have arc: "createCoordinates chart (?cv\<lparr>boundaryCoordinates := ?ring\<rparr>) (Arc ?a) = Inr ?arc"
    using bearing chart_createArc_3 [of "60 * 1.852"]
    by (simp add: createCoordinates_def createCoordinatesFromArc_def regex_samples
        regex_samples_south chart_transform_origin chart_transform_south chart_radius
        chart_bearing_axes Let_def)
  have res: "resolveBoundary chart ?cv [Circle ?c, Arc ?a]
               = Inr (?cv\<lparr>boundaryCoordinates := ?ring @ ?arc\<rparr>)"
    using circle arc by simp
  have north: "turfDestination (0, 0) (60 * 1.852) 0 = (0, 60 * 1.852 / 6371.0088 * 180 / pi)"
    by (rule turfDestination_north [OF km])
  from res north show ?thesis by simp
qed

section \<open>Arcs: where the tessellation ends\<close>





lemma turfDestination_full_turn: "turfDestination c km 360 = turfDestination c km 0"
proof -
  have "degreesToRadians 360 = degreesToRadians 0"
    by (simp add: degreesToRadians_def jsRemainder_def)
  then show ?thesis by (simp add: turfDestination_def)
qed

lemma chart_createArc_3_back:
  "createArc chart (0, 0) km 180 0 3
     = Inr [turfDestination (0, 0) km 180, turfDestination (0, 0) km 300,
            turfDestination (0, 0) km 0]"
proof -
  have n: "nat \<lceil>(0 + 360 - 180) * real_of_int 3 / 360 :: real\<rceil> = 2"
    by (simp add: ceiling_eq_iff)
  have "turf_lineArc chart (0, 0) km 180 0 3
          = Inr [turfDestination (0, 0) km 180, turfDestination (0, 0) km 300,
                 turfDestination (0, 0) km 360]"
    using n by (simp add: chart_def turfLineArc_def convertAngleTo360_values Let_def upt_rec)
  then show ?thesis
    by (simp add: createArc_def createLineString_def turfDestination_full_turn)
qed

lemma chart_arc_counter_clockwise:
  "createCoordinatesFromArc chart
     \<lparr>ident = ''A'', seqno = ''1'', geometryDetail = 3, boundaryCoordinates = [(0, 1)]\<rparr>
     \<lparr>arc_dir = Some ''ccw'', arc_radius = Some ''1 nm'',
      arc_centre = Some ''000000N 0000000E'', arc_to = Some ''010000S 0000000E''\<rparr>
   = Inr [turfDestination (0, 0) (1 * 1.852) 0, turfDestination (0, 0) (1 * 1.852) 300,
          turfDestination (0, 0) (1 * 1.852) 180]"
proof -
  have "REGEX_ARC_DIR ''ccw''" by (simp add: REGEX_ARC_DIR_def)
  then show ?thesis
    using chart_createArc_3_back [of "1 * 1.852"]
    by (simp add: createCoordinatesFromArc_def regex_samples regex_samples_south
        chart_transform_origin chart_transform_south chart_radius_one chart_bearing_axes Let_def)
qed

end
